theory Spec2Isabelle
  imports Main
begin

section \<open>Data model\<close>

text \<open>
  The per-user record of \<^verbatim>\<open>internal/bot/bot.go\<close> (and of the older \<^verbatim>\<open>main.go\<close>,
  which declares the same struct). Go strings are byte sequences, as \<^typ>\<open>string\<close> is,
  so \<^const>\<open>length\<close> is Go's \<^verbatim>\<open>len\<close> and \<^const>\<open>take\<close> is \<^verbatim>\<open>s[:n]\<close>.
\<close>

record UserState =
  Category :: string
  Topic :: string
  WaitingFor :: string
  ScriptText :: string

definition StateInitial :: string where
  "StateInitial = ''initial''"

definition StateCategory :: string where
  "StateCategory = ''category''"

definition StateTopic :: string where
  "StateTopic = ''topic''"

text \<open>The composite literal \<^verbatim>\<open>&UserState{WaitingFor: StateInitial}\<close>: every other field is
  the empty string.\<close>

definition newUserState :: UserState where
  "newUserState = \<lparr>Category = [], Topic = [], WaitingFor = StateInitial, ScriptText = []\<rparr>"

text \<open>An inline keyboard button: its text and its callback data (a pointer in the
  library, \<open>None\<close> in the zero value of the struct).\<close>

type_synonym button = "string \<times> string option"

definition NewInlineKeyboardButtonData :: "string \<Rightarrow> string \<Rightarrow> button" where
  "NewInlineKeyboardButtonData text data = (text, Some data)"

definition zeroButton :: button where
  "zeroButton = ([], None)"

text \<open>
  Everything the handlers do to the outside world, in the order they do it. The results of
  \<^verbatim>\<open>tg.Send\<close> are discarded by every caller, so a send is only recorded.
  \<^item> \<open>SendMessage chat text parseMode markup\<close>: a text message, with its rows of buttons;
  \<^item> \<open>SendAudio chat path caption\<close>; \<open>SendCallback queryID text\<close>: the acknowledgment of a
    callback query;
  \<^item> \<open>ChatCompletion model prompt\<close> and \<open>CreateSpeech model input voice\<close>: the calls to
    the generation services;
  \<^item> \<open>CloseStream\<close>, \<open>WriteFile path data\<close>, \<open>RemoveFile path\<close>: the audio file handling;
  \<^item> \<open>Println text\<close>: the debugging output of the older \<^verbatim>\<open>main.go\<close>.
\<close>

datatype effect =
    SendMessage int string string "button list list option"
  | SendAudio int string string
  | SendCallback string string
  | ChatCompletion string string
  | CreateSpeech string string string
  | CloseStream
  | WriteFile string string
  | RemoveFile string
  | Println string

text \<open>
  The bot: the session map, the mutex guarding it (\<open>True\<close> when held) and the effects so
  far. The map holds pointers in the source; every write through a pointer in the handlers
  happens while that pointer is still the entry of the map (only \<^verbatim>\<open>resetState\<close> replaces an
  entry, and no handler uses an older pointer after it), so the map holds the records.
\<close>

record bot =
  states :: "int \<rightharpoonup> UserState"
  mu :: bool
  out :: "effect list"

definition initialBot :: bot where
  "initialBot = \<lparr>states = Map.empty, mu = False, out = []\<rparr>"

section \<open>Control: returning, blocking for ever, panicking\<close>

text \<open>
  A handler runs in the single goroutine of \<^verbatim>\<open>Run\<close>. It either returns, or blocks for ever
  on the mutex (\<^verbatim>\<open>sync.Mutex\<close> is not reentrant, and no other goroutine is there to
  unlock it), or panics (nothing recovers, the process ends). Each outcome keeps the state
  reached.
\<close>

datatype 'a outcome = Returns 'a bot | Blocks bot | Panics bot

definition andThen :: "(bot \<Rightarrow> 'a outcome) \<Rightarrow> ('a \<Rightarrow> bot \<Rightarrow> 'b outcome) \<Rightarrow> bot \<Rightarrow> 'b outcome" where
  "andThen m f b =
     (case m b of Returns x b' \<Rightarrow> f x b' | Blocks b' \<Rightarrow> Blocks b' | Panics b' \<Rightarrow> Panics b')"

text \<open>\<^verbatim>\<open>defer d\<close> before a body: \<open>d\<close> runs when the body returns and when it panics, not
  when it blocks.\<close>

definition deferring :: "(bot \<Rightarrow> unit outcome) \<Rightarrow> (bot \<Rightarrow> 'a outcome) \<Rightarrow> bot \<Rightarrow> 'a outcome" where
  "deferring d m b =
     (case m b of
        Returns x b' \<Rightarrow> andThen d (\<lambda>_. Returns x) b'
      | Blocks b' \<Rightarrow> Blocks b'
      | Panics b' \<Rightarrow> (case d b' of Returns _ b'' \<Rightarrow> Panics b'' | Blocks b'' \<Rightarrow> Blocks b''
                      | Panics b'' \<Rightarrow> Panics b''))"

definition Lock :: "bot \<Rightarrow> unit outcome" where
  "Lock b = (if mu b then Blocks b else Returns () (b\<lparr>mu := True\<rparr>))"

text \<open>Unlocking a mutex that is not held is a fatal error of the runtime.\<close>

definition Unlock :: "bot \<Rightarrow> unit outcome" where
  "Unlock b = (if mu b then Returns () (b\<lparr>mu := False\<rparr>) else Panics b)"

definition Send :: "effect \<Rightarrow> bot \<Rightarrow> unit outcome" where
  "Send e b = Returns () (b\<lparr>out := out b @ [e]\<rparr>)"

text \<open>A write \<^verbatim>\<open>p.F = v\<close> to the record of a user. Through \<^verbatim>\<open>b.states[userID]\<close> it
  dereferences nil when the user has no entry.\<close>

definition modifyState :: "int \<Rightarrow> (UserState \<Rightarrow> UserState) \<Rightarrow> bot \<Rightarrow> unit outcome" where
  "modifyState userID f b =
     (case states b userID of
        None \<Rightarrow> Panics b
      | Some st \<Rightarrow> Returns () (b\<lparr>states := (states b)(userID \<mapsto> f st)\<rparr>))"

section \<open>The session store of internal/bot/bot.go\<close>

definition getState :: "int \<Rightarrow> bot \<Rightarrow> UserState outcome" where
  "getState userID =
     andThen Lock (\<lambda>_.
     deferring Unlock
       (\<lambda>b. case states b userID of
               None \<Rightarrow> Returns newUserState (b\<lparr>states := (states b)(userID \<mapsto> newUserState)\<rparr>)
             | Some st \<Rightarrow> Returns st b))"

definition resetState :: "int \<Rightarrow> bot \<Rightarrow> unit outcome" where
  "resetState userID =
     andThen Lock (\<lambda>_.
     andThen (\<lambda>b. Returns () (b\<lparr>states := (states b)(userID \<mapsto> newUserState)\<rparr>)) (\<lambda>_.
     Unlock))"

section \<open>Library functions the handlers call\<close>

text \<open>\<^verbatim>\<open>strings.Split(input, ",")\<close>: the segments between the commas, never an empty
  list (one empty segment for the empty string).\<close>

fun splitComma :: "string \<Rightarrow> string list" where
  "splitComma [] = [[]]"
| "splitComma (c # cs) =
     (if c = CHR '','' then [] # splitComma cs
      else (case splitComma cs of [] \<Rightarrow> [[c]] | w # ws \<Rightarrow> (c # w) # ws))"

definition splitTopics :: "string \<Rightarrow> string list" where
  "splitTopics input = splitComma input"

text \<open>
  A Go slice: its elements and its capacity. \<^verbatim>\<open>append\<close> to a full slice reallocates with
  the capacity the runtime's \<^verbatim>\<open>growslice\<close> computes: the new length when that is more than
  double the old capacity, double below 256 elements, and steps of a quarter plus 192 from
  there on. (The allocator's rounding to a size class is left out; it gives a button slice
  of capacity 1 or 2 no room for a third element.)
\<close>

record 'a slice =
  elems :: "'a list"
  cap :: nat

definition nilSlice :: "'a slice" where
  "nilSlice = \<lparr>elems = [], cap = 0\<rparr>"

function growLoop :: "nat \<Rightarrow> nat \<Rightarrow> nat" where
  "growLoop newcap newLen =
     (if 0 < newcap \<and> newcap < newLen then growLoop (newcap + (newcap + 3 * 256) div 4) newLen
      else newcap)"
  by pat_completeness auto
termination
  by (relation "measure (\<lambda>(newcap, newLen). newLen - newcap)") auto

definition growCap :: "nat \<Rightarrow> nat \<Rightarrow> nat" where
  "growCap oldCap newLen =
     (if newLen > oldCap + oldCap then newLen
      else if oldCap < 256 then oldCap + oldCap
      else growLoop oldCap newLen)"

definition appendSlice :: "'a slice \<Rightarrow> 'a \<Rightarrow> 'a slice" where
  "appendSlice s x =
     (if length (elems s) < cap s then s\<lparr>elems := elems s @ [x]\<rparr>
      else \<lparr>elems = elems s @ [x], cap = growCap (cap s) (length (elems s) + 1)\<rparr>)"

text \<open>\<^verbatim>\<open>s[:n]\<close> is in range up to the capacity, and reads the zero value beyond the
  length; \<^verbatim>\<open>s[n:]\<close> is in range up to the length. Out of range is \<open>None\<close>: the panic.\<close>

definition sliceTo :: "'a \<Rightarrow> 'a slice \<Rightarrow> nat \<Rightarrow> 'a list option" where
  "sliceTo zero s n =
     (if n \<le> cap s then Some (take n (elems s @ replicate (cap s - length (elems s)) zero))
      else None)"

definition sliceFrom :: "'a slice \<Rightarrow> nat \<Rightarrow> 'a list option" where
  "sliceFrom s n = (if n \<le> length (elems s) then Some (drop n (elems s)) else None)"

text \<open>\<^verbatim>\<open>fmt.Sprintf("%d", n)\<close>.\<close>

fun showNat :: "nat \<Rightarrow> string" where
  "showNat n =
     (if n < 10 then [''0123456789'' ! n]
      else showNat (n div 10) @ [''0123456789'' ! (n mod 10)])"

definition showInt :: "int \<Rightarrow> string" where
  "showInt i = (if i < 0 then CHR ''-'' # showNat (nat (- i)) else showNat (nat i))"

text \<open>Constants of the two client libraries.\<close>

definition GPT4o :: string where
  "GPT4o = ''gpt-4o''"

definition TTSModel1 :: string where
  "TTSModel1 = ''tts-1''"

definition VoiceAlloy :: string where
  "VoiceAlloy = ''alloy''"

definition ModeMarkdown :: string where
  "ModeMarkdown = ''Markdown''"

section \<open>The generation services\<close>

text \<open>
  What the services answer while one update is handled (each is called at most once per
  update): \<open>chatReply\<close> is the error of \<^verbatim>\<open>CreateChatCompletion\<close> or the contents of
  \<^verbatim>\<open>resp.Choices\<close>; \<open>speechReply\<close> is the error of \<^verbatim>\<open>CreateSpeech\<close>, or a stream whose
  \<^verbatim>\<open>io.ReadAll\<close> fails or gives the audio bytes; \<open>writeFileOk\<close> tells whether
  \<^verbatim>\<open>os.WriteFile\<close> succeeds.
\<close>

datatype 'a reply = Failure | Success 'a

record services =
  chatReply :: "string list reply"
  speechReply :: "string reply reply"
  writeFileOk :: bool

definition CreateChatCompletion :: "services \<Rightarrow> string \<Rightarrow> string \<Rightarrow> bot \<Rightarrow> string list reply outcome" where
  "CreateChatCompletion svc model prompt b =
     Returns (chatReply svc) (b\<lparr>out := out b @ [ChatCompletion model prompt]\<rparr>)"

text \<open>\<^verbatim>\<open>resp.Choices[0].Message.Content\<close>: an index out of range when there is no choice.\<close>

definition firstChoice :: "string list \<Rightarrow> bot \<Rightarrow> string outcome" where
  "firstChoice choices b = (case choices of [] \<Rightarrow> Panics b | c # _ \<Rightarrow> Returns c b)"

section \<open>Messages shared by both versions of the handlers\<close>

definition categories :: "string list" where
  "categories = [''Auto'', ''Health'', ''Travel'', ''ML'', ''Media'']"

definition categoryMenu :: "int \<Rightarrow> effect" where
  "categoryMenu userID =
     SendMessage userID ''Choose podcast category:'' []
       (Some [map (\<lambda>cat. NewInlineKeyboardButtonData cat cat) categories])"

definition sendCategories :: "int \<Rightarrow> bot \<Rightarrow> unit outcome" where
  "sendCategories userID =
     andThen Lock (\<lambda>_.
     andThen (modifyState userID (\<lambda>st. st\<lparr>WaitingFor := StateCategory\<rparr>)) (\<lambda>_.
     andThen Unlock (\<lambda>_.
     Send (categoryMenu userID))))"

definition errorNotice :: "int \<Rightarrow> effect" where
  "errorNotice userID = SendMessage userID ''Error generating content. Please try again.'' [] None"

definition sendError :: "int \<Rightarrow> bot \<Rightarrow> unit outcome" where
  "sendError userID =
     andThen (Send (errorNotice userID)) (\<lambda>_.
     sendCategories userID)"

definition topicButtons :: "string list \<Rightarrow> button slice" where
  "topicButtons topics =
     foldl appendSlice nilSlice (map (\<lambda>topic. NewInlineKeyboardButtonData topic topic) topics)"

definition sendTopics :: "int \<Rightarrow> string list \<Rightarrow> bot \<Rightarrow> unit outcome" where
  "sendTopics userID topics b =
     (let buttons = topicButtons topics in
      case sliceTo zeroButton buttons 3 of
        None \<Rightarrow> Panics b
      | Some row1 \<Rightarrow>
          (case sliceFrom buttons 3 of
             None \<Rightarrow> Panics b
           | Some row2 \<Rightarrow>
               Send (SendMessage userID ''Choose a specific topic:'' [] (Some [row1, row2])) b))"

definition audioPath :: "int \<Rightarrow> string" where
  "audioPath userID = showInt userID @ ''.mp3''"

definition generateAndSendAudio :: "services \<Rightarrow> int \<Rightarrow> string \<Rightarrow> bot \<Rightarrow> unit outcome" where
  "generateAndSendAudio svc userID text =
     andThen (Send (CreateSpeech TTSModel1 text VoiceAlloy)) (\<lambda>_.
     case speechReply svc of
       Failure \<Rightarrow> sendError userID
     | Success stream \<Rightarrow>
         deferring (Send CloseStream)
           (case stream of
              Failure \<Rightarrow> sendError userID
            | Success audioData \<Rightarrow>
                andThen (Send (WriteFile (audioPath userID) audioData)) (\<lambda>_.
                if \<not> writeFileOk svc then sendError userID
                else deferring (Send (RemoveFile (audioPath userID)))
                       (Send (SendAudio userID (audioPath userID) ''Here's your podcast, enjoy!'')))))"

definition topicsPrompt :: "string \<Rightarrow> string" where
  "topicsPrompt category =
     ''Generate 5 podcast topics about '' @ category @ ''. Return as comma-separated list.''"

definition scriptPrompt :: "string \<Rightarrow> string \<Rightarrow> string" where
  "scriptPrompt topic category =
     ''Create a 2-minute podcast script about '' @ topic @ '' in '' @ category
       @ '' category. Keep it under 400 words.''"

definition truncationMarker :: string where
  "truncationMarker = CHR 0x0A # ''... [truncated]''"

definition noScriptNotice :: "int \<Rightarrow> effect" where
  "noScriptNotice userID =
     SendMessage userID ''No script available. Please create a podcast first!'' [] None"

definition textMessage :: "int \<Rightarrow> string \<Rightarrow> effect" where
  "textMessage userID script =
     (let maxLength = 4000 in
      SendMessage userID
        (if length script > maxLength then take maxLength script @ truncationMarker else script)
        ModeMarkdown None)"

section \<open>The handlers of internal/bot/bot.go\<close>

definition handleTextRequest :: "int \<Rightarrow> bot \<Rightarrow> unit outcome" where
  "handleTextRequest userID =
     andThen (getState userID) (\<lambda>st.
     if ScriptText st = [] then Send (noScriptNotice userID)
     else Send (textMessage userID (ScriptText st)))"

text \<open>The handler takes the mutex and then calls \<^verbatim>\<open>getState\<close>, which takes it again.\<close>

definition handleCategorySelection :: "services \<Rightarrow> int \<Rightarrow> string \<Rightarrow> bot \<Rightarrow> unit outcome" where
  "handleCategorySelection svc userID category =
     andThen Lock (\<lambda>_.
     andThen (getState userID) (\<lambda>st.
     andThen (modifyState userID (\<lambda>st. st\<lparr>Category := category\<rparr>)) (\<lambda>_.
     andThen (modifyState userID (\<lambda>st. st\<lparr>WaitingFor := StateTopic\<rparr>)) (\<lambda>_.
     andThen Unlock (\<lambda>_.
     andThen (CreateChatCompletion svc GPT4o (topicsPrompt category)) (\<lambda>resp.
     case resp of
       Failure \<Rightarrow> sendError userID
     | Success choices \<Rightarrow>
         andThen (firstChoice choices) (\<lambda>content.
         sendTopics userID (splitTopics content))))))))"

definition handleTopicSelection :: "services \<Rightarrow> int \<Rightarrow> string \<Rightarrow> bot \<Rightarrow> unit outcome" where
  "handleTopicSelection svc userID topic =
     andThen (getState userID) (\<lambda>st.
     andThen Lock (\<lambda>_.
     andThen (modifyState userID (\<lambda>st. st\<lparr>Topic := topic\<rparr>)) (\<lambda>_.
     andThen Unlock (\<lambda>_.
     andThen (CreateChatCompletion svc GPT4o (scriptPrompt topic (Category st))) (\<lambda>resp.
     case resp of
       Failure \<Rightarrow> sendError userID
     | Success choices \<Rightarrow>
         andThen (firstChoice choices) (\<lambda>script.
         andThen Lock (\<lambda>_.
         andThen (modifyState userID (\<lambda>st. st\<lparr>ScriptText := script\<rparr>)) (\<lambda>_.
         andThen Unlock (\<lambda>_.
         generateAndSendAudio svc userID script)))))))))"

text \<open>An update of the transport: a message (chat, text), a callback query (query
  identifier, chat, data), or anything else, which \<^verbatim>\<open>Run\<close> skips.\<close>

datatype update = Message int string | CallbackQuery string int string | OtherUpdate

definition handleMessage :: "int \<Rightarrow> string \<Rightarrow> bot \<Rightarrow> unit outcome" where
  "handleMessage userID text =
     andThen (getState userID) (\<lambda>state.
     if text = ''/new'' then andThen (resetState userID) (\<lambda>_. sendCategories userID)
     else if text = ''/text'' then handleTextRequest userID
     else if WaitingFor state = StateInitial then sendCategories userID
     else Returns ())"

definition handleCallback :: "services \<Rightarrow> string \<Rightarrow> int \<Rightarrow> string \<Rightarrow> bot \<Rightarrow> unit outcome" where
  "handleCallback svc queryID userID data =
     andThen (getState userID) (\<lambda>state.
     andThen (if WaitingFor state = StateCategory then handleCategorySelection svc userID data
              else if WaitingFor state = StateTopic then handleTopicSelection svc userID data
              else Returns ()) (\<lambda>_.
     Send (SendCallback queryID [])))"

fun handleUpdate :: "services \<Rightarrow> update \<Rightarrow> bot \<Rightarrow> unit outcome" where
  "handleUpdate svc (Message userID text) = handleMessage userID text"
| "handleUpdate svc (CallbackQuery queryID userID data) = handleCallback svc queryID userID data"
| "handleUpdate svc OtherUpdate = Returns ()"

text \<open>The loop of \<^verbatim>\<open>Run\<close> over the updates received, each with the answers the services
  give while it is handled.\<close>

fun run :: "(update \<times> services) list \<Rightarrow> bot \<Rightarrow> unit outcome" where
  "run [] = Returns ()"
| "run ((u, svc) # rest) = andThen (handleUpdate svc u) (\<lambda>_. run rest)"

section \<open>The handlers of the older main.go\<close>

text \<open>
  \<^verbatim>\<open>main.go\<close> holds the same handlers over a global map \<^verbatim>\<open>userStates\<close> and a global
  mutex \<^verbatim>\<open>statesMutex\<close>, here the same \<^typ>\<open>bot\<close>. It has no \<^verbatim>\<open>getState\<close>: each handler
  reads the map itself, and dereferences what it finds.
\<close>

definition lookupState :: "int \<Rightarrow> bot \<Rightarrow> UserState option outcome" where
  "lookupState userID b = Returns (states b userID) b"

text \<open>A read through a pointer that may be nil.\<close>

definition deref :: "UserState option \<Rightarrow> bot \<Rightarrow> UserState outcome" where
  "deref p b = (case p of None \<Rightarrow> Panics b | Some st \<Rightarrow> Returns st b)"

definition main_handleTextRequest :: "int \<Rightarrow> bot \<Rightarrow> unit outcome" where
  "main_handleTextRequest userID =
     andThen Lock (\<lambda>_.
     andThen (lookupState userID) (\<lambda>state.
     andThen (deref state) (\<lambda>st.
     andThen Unlock (\<lambda>_.
     if ScriptText st = [] then Send (noScriptNotice userID)
     else Send (textMessage userID (ScriptText st))))))"

definition main_handleCategorySelection :: "services \<Rightarrow> int \<Rightarrow> string \<Rightarrow> bot \<Rightarrow> unit outcome" where
  "main_handleCategorySelection svc userID category =
     andThen Lock (\<lambda>_.
     andThen (modifyState userID (\<lambda>st. st\<lparr>Category := category\<rparr>)) (\<lambda>_.
     andThen (modifyState userID (\<lambda>st. st\<lparr>WaitingFor := StateTopic\<rparr>)) (\<lambda>_.
     andThen Unlock (\<lambda>_.
     andThen (CreateChatCompletion svc GPT4o (topicsPrompt category)) (\<lambda>resp.
     case resp of
       Failure \<Rightarrow> sendError userID
     | Success choices \<Rightarrow>
         andThen (firstChoice choices) (\<lambda>content.
         andThen (Send (Println content)) (\<lambda>_.
         sendTopics userID (splitTopics content))))))))"

definition main_handleTopicSelection :: "services \<Rightarrow> int \<Rightarrow> string \<Rightarrow> bot \<Rightarrow> unit outcome" where
  "main_handleTopicSelection svc userID topic =
     andThen Lock (\<lambda>_.
     andThen (lookupState userID) (\<lambda>state.
     andThen (modifyState userID (\<lambda>st. st\<lparr>Topic := topic\<rparr>)) (\<lambda>_.
     andThen Unlock (\<lambda>_.
     andThen (deref state) (\<lambda>st.
     andThen (CreateChatCompletion svc GPT4o (scriptPrompt topic (Category st))) (\<lambda>resp.
     case resp of
       Failure \<Rightarrow> sendError userID
     | Success choices \<Rightarrow>
         andThen (firstChoice choices) (\<lambda>script.
         andThen Lock (\<lambda>_.
         andThen (modifyState userID (\<lambda>st. st\<lparr>ScriptText := script\<rparr>)) (\<lambda>_.
         andThen Unlock (\<lambda>_.
         generateAndSendAudio svc userID script))))))))))"

definition main_handleMessage :: "int \<Rightarrow> string \<Rightarrow> bot \<Rightarrow> unit outcome" where
  "main_handleMessage userID text =
     andThen Lock (\<lambda>_.
     andThen (\<lambda>b. case states b userID of
                     None \<Rightarrow> Returns () (b\<lparr>states := (states b)(userID \<mapsto> newUserState)\<rparr>)
                   | Some _ \<Rightarrow> Returns () b) (\<lambda>_.
     andThen (lookupState userID) (\<lambda>state.
     andThen Unlock (\<lambda>_.
     if text = ''/new'' then
       andThen Lock (\<lambda>_.
       andThen (\<lambda>b. Returns () (b\<lparr>states := (states b)(userID \<mapsto> newUserState)\<rparr>)) (\<lambda>_.
       andThen Unlock (\<lambda>_.
       sendCategories userID)))
     else if text = ''/text'' then main_handleTextRequest userID
     else andThen (deref state) (\<lambda>st.
          if WaitingFor st = StateInitial then sendCategories userID else Returns ())))))"

definition main_handleCallback :: "services \<Rightarrow> string \<Rightarrow> int \<Rightarrow> string \<Rightarrow> bot \<Rightarrow> unit outcome" where
  "main_handleCallback svc queryID userID data =
     andThen Lock (\<lambda>_.
     andThen (lookupState userID) (\<lambda>state.
     andThen Unlock (\<lambda>_.
     andThen (deref state) (\<lambda>st.
     andThen (if WaitingFor st = StateCategory then main_handleCategorySelection svc userID data
              else if WaitingFor st = StateTopic then main_handleTopicSelection svc userID data
              else Returns ()) (\<lambda>_.
     Send (SendCallback queryID []))))))"

fun main_handleUpdate :: "services \<Rightarrow> update \<Rightarrow> bot \<Rightarrow> unit outcome" where
  "main_handleUpdate svc (Message userID text) = main_handleMessage userID text"
| "main_handleUpdate svc (CallbackQuery queryID userID data) =
     main_handleCallback svc queryID userID data"
| "main_handleUpdate svc OtherUpdate = Returns ()"

fun main_run :: "(update \<times> services) list \<Rightarrow> bot \<Rightarrow> unit outcome" where
  "main_run [] = Returns ()"
| "main_run ((u, svc) # rest) = andThen (main_handleUpdate svc u) (\<lambda>_. main_run rest)"

text \<open>A selection event carries a non-empty label; any other update passes.\<close>

fun hasLabel :: "update \<Rightarrow> bool" where
  "hasLabel (CallbackQuery queryID userID data) = (data \<noteq> [])"
| "hasLabel (Message userID text) = True"
| "hasLabel OtherUpdate = True"

section \<open>Observing an outcome\<close>

fun stateOf :: "'a outcome \<Rightarrow> bot" where
  "stateOf (Returns x b) = b"
| "stateOf (Blocks b) = b"
| "stateOf (Panics b) = b"

fun returned :: "'a outcome \<Rightarrow> bool" where
  "returned (Returns x b) = True"
| "returned (Blocks b) = False"
| "returned (Panics b) = False"

fun blocked :: "'a outcome \<Rightarrow> bool" where
  "blocked (Returns x b) = False"
| "blocked (Blocks b) = True"
| "blocked (Panics b) = False"

fun panicked :: "'a outcome \<Rightarrow> bool" where
  "panicked (Returns x b) = False"
| "panicked (Blocks b) = False"
| "panicked (Panics b) = True"

section \<open>Running the primitives\<close>

lemmas exec_defs = andThen_def deferring_def Lock_def Unlock_def Send_def modifyState_def
  CreateChatCompletion_def firstChoice_def lookupState_def deref_def

lemma getState_free:
  "\<not> mu b \<Longrightarrow> getState userID b =
     (case states b userID of
        None \<Rightarrow> Returns newUserState (b\<lparr>states := (states b)(userID \<mapsto> newUserState)\<rparr>)
      | Some st \<Rightarrow> Returns st b)"
  by (simp add: getState_def exec_defs split: option.splits)

lemma getState_held: "mu b \<Longrightarrow> getState userID b = Blocks b"
  by (simp add: getState_def exec_defs)

lemma resetState_free:
  "\<not> mu b \<Longrightarrow> resetState userID b = Returns () (b\<lparr>states := (states b)(userID \<mapsto> newUserState)\<rparr>)"
  by (simp add: resetState_def exec_defs)

lemma sendCategories_free:
  "\<not> mu b \<Longrightarrow> states b userID = Some st \<Longrightarrow>
   sendCategories userID b =
     Returns () (b\<lparr>states := (states b)(userID \<mapsto> st\<lparr>WaitingFor := StateCategory\<rparr>),
                  out := out b @ [categoryMenu userID]\<rparr>)"
  by (simp add: sendCategories_def exec_defs)

lemma sendError_free:
  "\<not> mu b \<Longrightarrow> states b userID = Some st \<Longrightarrow>
   sendError userID b =
     Returns () (b\<lparr>states := (states b)(userID \<mapsto> st\<lparr>WaitingFor := StateCategory\<rparr>),
                  out := out b @ [errorNotice userID, categoryMenu userID]\<rparr>)"
  by (simp add: sendError_def andThen_def Send_def sendCategories_free)

section \<open>The session store\<close>

text \<open>
  C9. When the mutex is free, \<^verbatim>\<open>getState\<close> returns, for a user without an entry, a
  record at phase initial whose category, topic and script are empty, and stores it; for a
  user with an entry it returns that entry and leaves the bot as it was.
\<close>

theorem getState_get_or_create:
  assumes "\<not> mu b"
  shows "getState userID b =
           (case states b userID of
              None \<Rightarrow> Returns newUserState (b\<lparr>states := (states b)(userID \<mapsto> newUserState)\<rparr>)
            | Some st \<Rightarrow> Returns st b)
         \<and> newUserState = \<lparr>Category = [], Topic = [], WaitingFor = StateInitial, ScriptText = []\<rparr>"
  using assms by (simp add: getState_free newUserState_def)

theorem getState_get_or_create_witness:
  "\<not> mu initialBot
   \<and> getState 7 initialBot
       = Returns \<lparr>Category = [], Topic = [], WaitingFor = ''initial'', ScriptText = []\<rparr>
           (initialBot\<lparr>states := [7 \<mapsto> \<lparr>Category = [], Topic = [], WaitingFor = ''initial'', ScriptText = []\<rparr>]\<rparr>)
   \<and> getState 7 (initialBot\<lparr>states := [7 \<mapsto> \<lparr>Category = ''ML'', Topic = ''GPUs'', WaitingFor = ''topic'', ScriptText = ''Hi''\<rparr>]\<rparr>)
       = Returns \<lparr>Category = ''ML'', Topic = ''GPUs'', WaitingFor = ''topic'', ScriptText = ''Hi''\<rparr>
           (initialBot\<lparr>states := [7 \<mapsto> \<lparr>Category = ''ML'', Topic = ''GPUs'', WaitingFor = ''topic'', ScriptText = ''Hi''\<rparr>]\<rparr>)"
  using getState_get_or_create [of initialBot 7]
    getState_get_or_create [of "initialBot\<lparr>states := [7 \<mapsto> \<lparr>Category = ''ML'', Topic = ''GPUs'', WaitingFor = ''topic'', ScriptText = ''Hi''\<rparr>]\<rparr>" 7]
  by (simp add: initialBot_def StateInitial_def)

section \<open>Starting a new session\<close>

text \<open>
  C3. Whatever the user's record was (or if there was none), handling \<^verbatim>\<open>/new\<close> leaves
  the user's record at phase category with category, topic and script empty, and sends the
  category menu and nothing else.
\<close>

theorem handleMessage_new:
  assumes "\<not> mu b"
  shows "handleMessage userID ''/new'' b =
           Returns ()
             (b\<lparr>states := (states b)(userID \<mapsto>
                    \<lparr>Category = [], Topic = [], WaitingFor = StateCategory, ScriptText = []\<rparr>),
                out := out b @ [categoryMenu userID]\<rparr>)"
  using assms
  by (simp add: handleMessage_def andThen_def getState_free resetState_free sendCategories_free
      newUserState_def split: option.splits)

theorem handleMessage_new_witness:
  "\<not> mu (initialBot\<lparr>states := [3 \<mapsto> \<lparr>Category = ''ML'', Topic = ''GPUs'', WaitingFor = ''topic'', ScriptText = ''Hi''\<rparr>]\<rparr>)
   \<and> states (stateOf (handleMessage 3 ''/new''
        (initialBot\<lparr>states := [3 \<mapsto> \<lparr>Category = ''ML'', Topic = ''GPUs'', WaitingFor = ''topic'', ScriptText = ''Hi''\<rparr>]\<rparr>))) 3
       = Some \<lparr>Category = [], Topic = [], WaitingFor = ''category'', ScriptText = []\<rparr>
   \<and> out (stateOf (handleMessage 3 ''/new''
        (initialBot\<lparr>states := [3 \<mapsto> \<lparr>Category = ''ML'', Topic = ''GPUs'', WaitingFor = ''topic'', ScriptText = ''Hi''\<rparr>]\<rparr>)))
       = [SendMessage 3 ''Choose podcast category:'' []
            (Some [[(''Auto'', Some ''Auto''), (''Health'', Some ''Health''),
                    (''Travel'', Some ''Travel''), (''ML'', Some ''ML''),
                    (''Media'', Some ''Media'')]])]"
  using handleMessage_new [of "initialBot\<lparr>states := [3 \<mapsto> \<lparr>Category = ''ML'', Topic = ''GPUs'', WaitingFor = ''topic'', ScriptText = ''Hi''\<rparr>]\<rparr>" 3]
  by (simp add: initialBot_def StateCategory_def categoryMenu_def categories_def
      NewInlineKeyboardButtonData_def)

section \<open>Asking for the text\<close>

lemma handleTextRequest_free:
  "\<not> mu b \<Longrightarrow> states b userID = Some st \<Longrightarrow>
   handleTextRequest userID b =
     Returns () (b\<lparr>out := out b @ [if ScriptText st = [] then noScriptNotice userID
                                     else textMessage userID (ScriptText st)]\<rparr>)"
  by (simp add: handleTextRequest_def andThen_def getState_free Send_def)

lemma handleMessage_text:
  "\<not> mu b \<Longrightarrow> states b userID = Some st \<Longrightarrow>
   handleMessage userID ''/text'' b = handleTextRequest userID b"
  by (simp add: handleMessage_def andThen_def getState_free)

lemma length_truncationMarker: "length truncationMarker = 16"
  by (simp add: truncationMarker_def)

text \<open>
  C5. With a script stored for the user (a non-empty \<^verbatim>\<open>ScriptText\<close>; the empty string is
  the absence of a script and is answered by the notice that there is none), handling
  \<^verbatim>\<open>/text\<close> sends one message: the first 4000 bytes of the script followed by the
  16-byte truncation marker when the script is longer than 4000 bytes, and the script itself
  otherwise. The message is never longer than 4096 bytes, the transport's limit.
\<close>

theorem handleTextRequest_truncates:
  assumes "\<not> mu b" and "states b userID = Some st" and "ScriptText st \<noteq> []"
  shows "handleTextRequest userID b =
           Returns () (b\<lparr>out := out b @
             [SendMessage userID
                (if length (ScriptText st) > 4000
                 then take 4000 (ScriptText st) @ truncationMarker else ScriptText st)
                ModeMarkdown None]\<rparr>)
         \<and> handleMessage userID ''/text'' b = handleTextRequest userID b
         \<and> length (if length (ScriptText st) > 4000
                   then take 4000 (ScriptText st) @ truncationMarker else ScriptText st) \<le> 4096"
  using assms
  by (simp add: handleTextRequest_free handleMessage_text textMessage_def
      length_truncationMarker)

theorem handleTextRequest_truncates_witness:
  "out (stateOf (handleTextRequest 5
      (initialBot\<lparr>states := [5 \<mapsto> \<lparr>Category = ''ML'', Topic = ''GPUs'', WaitingFor = ''topic'',
                                     ScriptText = replicate 4001 CHR ''a''\<rparr>]\<rparr>)))
     = [SendMessage 5 (replicate 4000 CHR ''a'' @ CHR 0x0A # ''... [truncated]'') ''Markdown'' None]
   \<and> out (stateOf (handleTextRequest 5
      (initialBot\<lparr>states := [5 \<mapsto> \<lparr>Category = ''ML'', Topic = ''GPUs'', WaitingFor = ''topic'',
                                     ScriptText = ''Hello''\<rparr>]\<rparr>)))
     = [SendMessage 5 ''Hello'' ''Markdown'' None]"
  using handleTextRequest_truncates [of
      "initialBot\<lparr>states := [5 \<mapsto> \<lparr>Category = ''ML'', Topic = ''GPUs'', WaitingFor = ''topic'',
                                     ScriptText = replicate 4001 CHR ''a''\<rparr>]\<rparr>" 5
      "\<lparr>Category = ''ML'', Topic = ''GPUs'', WaitingFor = ''topic'',
        ScriptText = replicate 4001 CHR ''a''\<rparr>"]
    handleTextRequest_truncates [of
      "initialBot\<lparr>states := [5 \<mapsto> \<lparr>Category = ''ML'', Topic = ''GPUs'', WaitingFor = ''topic'',
                                     ScriptText = ''Hello''\<rparr>]\<rparr>" 5
      "\<lparr>Category = ''ML'', Topic = ''GPUs'', WaitingFor = ''topic'', ScriptText = ''Hello''\<rparr>"]
  by (simp add: initialBot_def truncationMarker_def ModeMarkdown_def)

text \<open>
  C10. Handling \<^verbatim>\<open>/text\<close> returns and changes no field of any session: every record of
  the store is afterwards what it was. The one thing it may do to the store is what every
  handler does first: the user who asks gets a fresh record (phase initial, everything
  empty) if the store had none; it then only appends the message sent.
\<close>

theorem handleTextRequest_frame:
  assumes "\<not> mu b"
  shows "\<exists>msg. handleTextRequest userID b =
             Returns () (b\<lparr>states := (case states b userID of
                                        None \<Rightarrow> (states b)(userID \<mapsto> newUserState)
                                      | Some _ \<Rightarrow> states b),
                           out := out b @ [msg]\<rparr>)
         \<and> handleMessage userID ''/text'' b = handleTextRequest userID b
         \<and> (\<forall>u st. states b u = Some st \<longrightarrow>
               states (stateOf (handleTextRequest userID b)) u = Some st)"
  using assms
  by (cases "states b userID")
     (auto simp add: handleTextRequest_def handleMessage_def andThen_def getState_free Send_def)

theorem handleTextRequest_frame_witness:
  "states (stateOf (handleMessage 1 ''/text''
      (initialBot\<lparr>states := [1 \<mapsto> \<lparr>Category = ''ML'', Topic = ''GPUs'', WaitingFor = ''topic'', ScriptText = ''Hello''\<rparr>,
                               2 \<mapsto> \<lparr>Category = ''Auto'', Topic = [], WaitingFor = ''category'', ScriptText = []\<rparr>]\<rparr>))) 1
     = Some \<lparr>Category = ''ML'', Topic = ''GPUs'', WaitingFor = ''topic'', ScriptText = ''Hello''\<rparr>
   \<and> states (stateOf (handleMessage 1 ''/text''
      (initialBot\<lparr>states := [1 \<mapsto> \<lparr>Category = ''ML'', Topic = ''GPUs'', WaitingFor = ''topic'', ScriptText = ''Hello''\<rparr>,
                               2 \<mapsto> \<lparr>Category = ''Auto'', Topic = [], WaitingFor = ''category'', ScriptText = []\<rparr>]\<rparr>))) 2
     = Some \<lparr>Category = ''Auto'', Topic = [], WaitingFor = ''category'', ScriptText = []\<rparr>"
  using handleTextRequest_frame [of
      "initialBot\<lparr>states := [1 \<mapsto> \<lparr>Category = ''ML'', Topic = ''GPUs'', WaitingFor = ''topic'', ScriptText = ''Hello''\<rparr>,
                               2 \<mapsto> \<lparr>Category = ''Auto'', Topic = [], WaitingFor = ''category'', ScriptText = []\<rparr>]\<rparr>" 1]
  by (auto simp add: initialBot_def)

section \<open>Selecting a category\<close>

text \<open>What the older \<^verbatim>\<open>main.go\<close> does on a category selection: it locks once, so it goes
  on to the generation call.\<close>

lemma main_handleCategorySelection_failure:
  "\<not> mu b \<Longrightarrow> states b userID = Some st \<Longrightarrow> chatReply svc = Failure \<Longrightarrow>
   main_handleCategorySelection svc userID category b =
     Returns ()
       (b\<lparr>states := (states b)(userID \<mapsto> st\<lparr>Category := category, WaitingFor := StateCategory\<rparr>),
          out := out b @ [ChatCompletion GPT4o (topicsPrompt category), errorNotice userID,
                          categoryMenu userID]\<rparr>)"
  by (simp add: main_handleCategorySelection_def andThen_def Lock_def Unlock_def
      modifyState_def CreateChatCompletion_def sendError_free)

lemma main_handleCategorySelection_reaches_call:
  "\<not> mu b \<Longrightarrow> states b userID = Some st \<Longrightarrow>
   main_handleCategorySelection svc userID category b =
     (case chatReply svc of
        Failure \<Rightarrow> sendError userID
      | Success choices \<Rightarrow>
          andThen (firstChoice choices) (\<lambda>content.
          andThen (Send (Println content)) (\<lambda>_. sendTopics userID (splitTopics content))))
       (b\<lparr>states := (states b)(userID \<mapsto> st\<lparr>Category := category, WaitingFor := StateTopic\<rparr>),
          mu := False,
          out := out b @ [ChatCompletion GPT4o (topicsPrompt category)]\<rparr>)"
  by (simp add: main_handleCategorySelection_def andThen_def Lock_def Unlock_def
      modifyState_def CreateChatCompletion_def)

text \<open>
  C4. In \<^verbatim>\<open>internal/bot/bot.go\<close> the handler of a category selection never gets as
  far as the claim describes: it locks the mutex and calls \<^verbatim>\<open>getState\<close>, which locks it
  again, so it blocks for ever with the store and the effects as they were. The category is
  not recorded, the phase is not changed and the text generation service is not called.
\<close>

theorem handleCategorySelection_blocks:
  "handleCategorySelection svc userID category b = Blocks (b\<lparr>mu := True\<rparr>)"
  by (simp add: handleCategorySelection_def andThen_def Lock_def getState_held)

text \<open>
  C2. A user sends \<^verbatim>\<open>/new\<close> and presses a category button, and the services would
  answer: the handling of the callback blocks, and the only effect of the two updates is
  the category menu. No acknowledgment of the callback is sent.
\<close>

theorem handleCallback_category_no_acknowledgment:
  "blocked (run [(Message 1 ''/new'', \<lparr>chatReply = Failure, speechReply = Failure, writeFileOk = True\<rparr>),
                 (CallbackQuery ''q1'' 1 ''Health'',
                    \<lparr>chatReply = Success [''Nutrition, Sleep, Exercise, Mental Health, Hydration''],
                     speechReply = Success (Success ''mp3''), writeFileOk = True\<rparr>)] initialBot)
   \<and> out (stateOf (run [(Message 1 ''/new'', \<lparr>chatReply = Failure, speechReply = Failure, writeFileOk = True\<rparr>),
                 (CallbackQuery ''q1'' 1 ''Health'',
                    \<lparr>chatReply = Success [''Nutrition, Sleep, Exercise, Mental Health, Hydration''],
                     speechReply = Success (Success ''mp3''), writeFileOk = True\<rparr>)] initialBot))
       = [categoryMenu 1]"
  by (simp add: handleMessage_def handleCallback_def handleCategorySelection_def
      getState_def resetState_def sendCategories_def exec_defs initialBot_def
      newUserState_def StateCategory_def StateInitial_def)

text \<open>
  C1. A user sends \<^verbatim>\<open>/new\<close> and presses a category button while the text generation
  service is failing: the handling of the callback blocks before the service is called. No
  error notice is sent and the category menu is not offered again; the record of the user
  is the one \<^verbatim>\<open>/new\<close> left.
\<close>

theorem handleCallback_category_failure_blocks:
  "blocked (run [(Message 1 ''/new'', \<lparr>chatReply = Failure, speechReply = Failure, writeFileOk = True\<rparr>),
                 (CallbackQuery ''q1'' 1 ''Health'',
                    \<lparr>chatReply = Failure, speechReply = Failure, writeFileOk = True\<rparr>)] initialBot)
   \<and> out (stateOf (run [(Message 1 ''/new'', \<lparr>chatReply = Failure, speechReply = Failure, writeFileOk = True\<rparr>),
                 (CallbackQuery ''q1'' 1 ''Health'',
                    \<lparr>chatReply = Failure, speechReply = Failure, writeFileOk = True\<rparr>)] initialBot))
       = [categoryMenu 1]
   \<and> states (stateOf (run [(Message 1 ''/new'', \<lparr>chatReply = Failure, speechReply = Failure, writeFileOk = True\<rparr>),
                 (CallbackQuery ''q1'' 1 ''Health'',
                    \<lparr>chatReply = Failure, speechReply = Failure, writeFileOk = True\<rparr>)] initialBot)) 1
       = Some \<lparr>Category = [], Topic = [], WaitingFor = ''category'', ScriptText = []\<rparr>"
  by (simp add: handleMessage_def handleCallback_def handleCategorySelection_def
      getState_def resetState_def sendCategories_def exec_defs initialBot_def
      newUserState_def StateCategory_def StateInitial_def)

text \<open>The same two updates in the older \<^verbatim>\<open>main.go\<close>: the call is made, fails, and the error
  notice, the category menu and the acknowledgment follow.\<close>

lemma main_category_failure_run:
  "main_run [(Message 1 ''/new'', \<lparr>chatReply = Failure, speechReply = Failure, writeFileOk = True\<rparr>),
             (CallbackQuery ''q1'' 1 ''Health'',
                \<lparr>chatReply = Failure, speechReply = Failure, writeFileOk = True\<rparr>)] initialBot
     = Returns ()
        \<lparr>states = [1 \<mapsto> \<lparr>Category = ''Health'', Topic = [], WaitingFor = ''category'', ScriptText = []\<rparr>],
         mu = False,
         out = [categoryMenu 1, ChatCompletion GPT4o (topicsPrompt ''Health''), errorNotice 1,
                categoryMenu 1, SendCallback ''q1'' []]\<rparr>"
  by (simp add: main_handleMessage_def main_handleCallback_def main_handleCategorySelection_def
      sendCategories_def sendError_def exec_defs initialBot_def
      newUserState_def StateCategory_def StateInitial_def StateTopic_def)

section \<open>Selecting a topic\<close>

lemma handleTopicSelection_chat_failure:
  "\<not> mu b \<Longrightarrow> states b userID = Some st \<Longrightarrow> chatReply svc = Failure \<Longrightarrow>
   handleTopicSelection svc userID topic b =
     Returns ()
       (b\<lparr>states := (states b)(userID \<mapsto> st\<lparr>Topic := topic, WaitingFor := StateCategory\<rparr>),
          out := out b @ [ChatCompletion GPT4o (scriptPrompt topic (Category st)),
                          errorNotice userID, categoryMenu userID]\<rparr>)"
  by (simp add: handleTopicSelection_def andThen_def getState_free Lock_def Unlock_def
      modifyState_def CreateChatCompletion_def sendError_free)

lemma handleTopicSelection_speech_failure:
  "\<not> mu b \<Longrightarrow> states b userID = Some st \<Longrightarrow> chatReply svc = Success (script # others) \<Longrightarrow>
   speechReply svc = Failure \<Longrightarrow>
   handleTopicSelection svc userID topic b =
     Returns ()
       (b\<lparr>states := (states b)(userID \<mapsto>
              st\<lparr>Topic := topic, ScriptText := script, WaitingFor := StateCategory\<rparr>),
          out := out b @ [ChatCompletion GPT4o (scriptPrompt topic (Category st)),
                          CreateSpeech TTSModel1 script VoiceAlloy,
                          errorNotice userID, categoryMenu userID]\<rparr>)"
  by (simp add: handleTopicSelection_def andThen_def getState_free Lock_def Unlock_def
      modifyState_def CreateChatCompletion_def firstChoice_def generateAndSendAudio_def
      Send_def sendError_free)

lemma handleCallback_topic:
  "\<not> mu b \<Longrightarrow> states b userID = Some st \<Longrightarrow> WaitingFor st = StateTopic \<Longrightarrow>
   handleCallback svc queryID userID data b =
     andThen (handleTopicSelection svc userID data) (\<lambda>_. Send (SendCallback queryID [])) b"
  by (simp add: handleCallback_def andThen_def getState_free StateTopic_def StateCategory_def)

text \<open>
  C6, as the code has it. When the text generation call or the speech generation call made
  for a topic selection fails, the handler sends the error notice and the category menu and
  then the acknowledgment, and the stored phase of the user is category afterwards:
  \<^verbatim>\<open>sendError\<close> calls \<^verbatim>\<open>sendCategories\<close>, which sets the phase before it sends the menu.
\<close>

theorem handleCallback_topic_failure_resets_phase:
  assumes "\<not> mu b" and "states b userID = Some st" and "WaitingFor st = StateTopic"
    and "chatReply svc = Failure
         \<or> (\<exists>script others. chatReply svc = Success (script # others)) \<and> speechReply svc = Failure"
  shows "\<exists>b' calls. handleCallback svc queryID userID topic b = Returns () b'
           \<and> map_option WaitingFor (states b' userID) = Some StateCategory
           \<and> map_option Topic (states b' userID) = Some topic
           \<and> out b' = out b @ calls
                @ [errorNotice userID, categoryMenu userID, SendCallback queryID []]"
  using assms(4)
proof
  assume "chatReply svc = Failure"
  then show ?thesis
    using assms(1-3)
    by (simp add: handleCallback_topic andThen_def handleTopicSelection_chat_failure Send_def)
next
  assume "(\<exists>script others. chatReply svc = Success (script # others)) \<and> speechReply svc = Failure"
  then obtain script others where "chatReply svc = Success (script # others)"
    and "speechReply svc = Failure"
    by blast
  then show ?thesis
    using assms(1-3)
    by (simp add: handleCallback_topic andThen_def handleTopicSelection_speech_failure Send_def)
qed

theorem handleCallback_topic_failure_resets_phase_witness:
  "returned (handleCallback \<lparr>chatReply = Failure, speechReply = Failure, writeFileOk = True\<rparr>
       ''q3'' 1 ''Sleep''
       \<lparr>states = [1 \<mapsto> \<lparr>Category = ''Health'', Topic = [], WaitingFor = ''topic'', ScriptText = []\<rparr>],
        mu = False, out = []\<rparr>)
   \<and> map_option WaitingFor (states (stateOf
       (handleCallback \<lparr>chatReply = Failure, speechReply = Failure, writeFileOk = True\<rparr>
          ''q3'' 1 ''Sleep''
          \<lparr>states = [1 \<mapsto> \<lparr>Category = ''Health'', Topic = [], WaitingFor = ''topic'', ScriptText = []\<rparr>],
           mu = False, out = []\<rparr>)) 1) = Some ''category''"
proof -
  have "\<exists>b' calls.
          handleCallback \<lparr>chatReply = Failure, speechReply = Failure, writeFileOk = True\<rparr>
            ''q3'' 1 ''Sleep''
            \<lparr>states = [1 \<mapsto> \<lparr>Category = ''Health'', Topic = [], WaitingFor = ''topic'', ScriptText = []\<rparr>],
             mu = False, out = []\<rparr> = Returns () b'
          \<and> map_option WaitingFor (states b' 1) = Some StateCategory
          \<and> map_option Topic (states b' 1) = Some ''Sleep''
          \<and> out b' = out \<lparr>states = [1 \<mapsto> \<lparr>Category = ''Health'', Topic = [], WaitingFor = ''topic'', ScriptText = []\<rparr>],
                           mu = False, out = []\<rparr> @ calls
                @ [errorNotice 1, categoryMenu 1, SendCallback ''q3'' []]"
    by (rule handleCallback_topic_failure_resets_phase
          [where st = "\<lparr>Category = ''Health'', Topic = [], WaitingFor = ''topic'', ScriptText = []\<rparr>"])
       (simp_all add: StateTopic_def)
  then show ?thesis
    by (auto simp add: StateCategory_def)
qed

text \<open>
  C6 as stated fails: from a record at phase topic, a topic selection whose text
  generation fails leaves the phase at category, not at topic. The second part is the same
  observation on the older \<^verbatim>\<open>main.go\<close>, from the empty store: \<^verbatim>\<open>/new\<close>, a category, then
  a topic while the service fails.
\<close>

theorem topic_failure_phase_counterexample:
  "map_option WaitingFor (states (stateOf
      (handleCallback \<lparr>chatReply = Failure, speechReply = Failure, writeFileOk = True\<rparr> ''q3'' 1 ''Sleep''
         \<lparr>states = [1 \<mapsto> \<lparr>Category = ''Health'', Topic = [], WaitingFor = StateTopic, ScriptText = []\<rparr>],
          mu = False, out = []\<rparr>)) 1) = Some StateCategory
   \<and> StateCategory \<noteq> StateTopic
   \<and> map_option WaitingFor (states (stateOf
      (main_run [(Message 1 ''/new'', \<lparr>chatReply = Failure, speechReply = Failure, writeFileOk = True\<rparr>),
                 (CallbackQuery ''q1'' 1 ''Health'',
                    \<lparr>chatReply = Success [''Nutrition,Sleep,Exercise,Mental Health,Hydration''],
                     speechReply = Failure, writeFileOk = True\<rparr>),
                 (CallbackQuery ''q2'' 1 ''Sleep'',
                    \<lparr>chatReply = Failure, speechReply = Failure, writeFileOk = True\<rparr>)] initialBot)) 1)
     = Some StateCategory"
proof -
  have a: "map_option WaitingFor (states (stateOf
      (handleCallback \<lparr>chatReply = Failure, speechReply = Failure, writeFileOk = True\<rparr> ''q3'' 1 ''Sleep''
         \<lparr>states = [1 \<mapsto> \<lparr>Category = ''Health'', Topic = [], WaitingFor = StateTopic, ScriptText = []\<rparr>],
          mu = False, out = []\<rparr>)) 1) = Some StateCategory"
    by (simp add: handleCallback_topic andThen_def handleTopicSelection_chat_failure Send_def)
  have b: "StateCategory \<noteq> StateTopic"
    by (simp add: StateTopic_def StateCategory_def)
  have c: "map_option WaitingFor (states (stateOf
      (main_run [(Message 1 ''/new'', \<lparr>chatReply = Failure, speechReply = Failure, writeFileOk = True\<rparr>),
                 (CallbackQuery ''q1'' 1 ''Health'',
                    \<lparr>chatReply = Success [''Nutrition,Sleep,Exercise,Mental Health,Hydration''],
                     speechReply = Failure, writeFileOk = True\<rparr>),
                 (CallbackQuery ''q2'' 1 ''Sleep'',
                    \<lparr>chatReply = Failure, speechReply = Failure, writeFileOk = True\<rparr>)] initialBot)) 1)
     = Some StateCategory"
    by (simp add: main_handleMessage_def main_handleCallback_def main_handleCategorySelection_def
        main_handleTopicSelection_def sendCategories_def sendError_def sendTopics_def
        topicButtons_def appendSlice_def nilSlice_def growCap_def sliceTo_def sliceFrom_def
        splitTopics_def exec_defs initialBot_def
        newUserState_def StateCategory_def StateInitial_def StateTopic_def)
  from a b c show ?thesis by blast
qed

section \<open>Offering the topics\<close>

declare growLoop.simps [simp del]

lemma growLoop_ge: "0 < newcap \<Longrightarrow> newLen \<le> growLoop newcap newLen"
proof (induction newcap newLen rule: growLoop.induct)
  case (1 newcap newLen)
  show ?case
  proof (cases "newcap < newLen")
    case True
    with 1 have "newLen \<le> growLoop (newcap + (newcap + 3 * 256) div 4) newLen"
      by simp
    with True 1(2) show ?thesis
      by (subst growLoop.simps) simp
  next
    case False
    then show ?thesis
      by (subst growLoop.simps) simp
  qed
qed

lemma growCap_ge: "newLen \<le> growCap oldCap newLen"
proof -
  have "256 \<le> oldCap \<Longrightarrow> newLen \<le> growLoop oldCap newLen"
    by (rule growLoop_ge) simp
  then show ?thesis
    unfolding growCap_def by auto
qed

lemma elems_appendSlice: "elems (appendSlice s x) = elems s @ [x]"
  by (simp add: appendSlice_def)

lemma cap_appendSlice_ge:
  "length (elems s) \<le> cap s \<Longrightarrow> Suc (length (elems s)) \<le> cap (appendSlice s x)"
  by (simp add: appendSlice_def growCap_ge)

lemma elems_foldl_appendSlice: "elems (foldl appendSlice s xs) = elems s @ xs"
  by (induction xs arbitrary: s) (simp_all add: elems_appendSlice)

lemma cap_foldl_appendSlice:
  "length (elems s) \<le> cap s \<Longrightarrow> length (elems s) + length xs \<le> cap (foldl appendSlice s xs)"
proof (induction xs arbitrary: s)
  case Nil
  then show ?case by simp
next
  case (Cons x xs)
  from Cons.prems have "length (elems (appendSlice s x)) \<le> cap (appendSlice s x)"
    using cap_appendSlice_ge [of s x] by (simp add: elems_appendSlice)
  from Cons.IH [OF this] show ?case
    by (simp add: elems_appendSlice)
qed

lemma topicButtons_elems:
  "elems (topicButtons topics) = map (\<lambda>topic. NewInlineKeyboardButtonData topic topic) topics"
  by (simp add: topicButtons_def elems_foldl_appendSlice nilSlice_def)

lemma topicButtons_cap_ge: "length topics \<le> cap (topicButtons topics)"
  using cap_foldl_appendSlice [of nilSlice
      "map (\<lambda>topic. NewInlineKeyboardButtonData topic topic) topics"]
  by (simp add: topicButtons_def nilSlice_def)

lemma short_list_cases:
  "length xs < 3 \<Longrightarrow> xs = [] \<or> (\<exists>a. xs = [a]) \<or> (\<exists>a c. xs = [a, c])"
proof (cases xs)
  case Nil
  then show ?thesis by simp
next
  case (Cons a ys)
  assume "length xs < 3"
  with Cons have "length ys < 2" by simp
  then show ?thesis
  proof (cases ys)
    case Nil
    with Cons show ?thesis by simp
  next
    case inner: (Cons c zs)
    with \<open>length ys < 2\<close> have "zs = []" by simp
    with Cons inner show ?thesis by simp
  qed
qed


lemma topicButtons_cap_small: "length topics < 3 \<Longrightarrow> cap (topicButtons topics) < 3"
  using short_list_cases [of topics]
  by (auto simp add: topicButtons_def nilSlice_def appendSlice_def growCap_def)

lemma sendTopics_rows:
  "sendTopics userID topics b =
     (if length topics < 3 then Panics b
      else Returns () (b\<lparr>out := out b @
             [SendMessage userID ''Choose a specific topic:'' []
                (Some [take 3 (map (\<lambda>topic. NewInlineKeyboardButtonData topic topic) topics),
                       drop 3 (map (\<lambda>topic. NewInlineKeyboardButtonData topic topic) topics)])]\<rparr>))"
proof (cases "length topics < 3")
  case True
  then show ?thesis
    using topicButtons_cap_small [of topics]
    by (simp add: sendTopics_def sliceTo_def)
next
  case False
  then show ?thesis
    using topicButtons_cap_ge [of topics]
    by (simp add: sendTopics_def sliceTo_def sliceFrom_def topicButtons_elems Send_def)
qed

text \<open>
  C7, as the code has it. The row indexing \<^verbatim>\<open>buttons[:3]\<close>, \<^verbatim>\<open>buttons[3:]\<close> is out of range
  exactly when the split of the response has fewer than 3 segments: then the topic offer
  panics and nothing is sent. With 3 segments or more (3 and 4 are fewer than 5) it sends
  the two rows, the first three candidates and the rest, which is empty for 3 segments.
\<close>

theorem sendTopics_split_rows:
  "sendTopics userID (splitTopics response) b =
     (if length (splitTopics response) < 3 then Panics b
      else Returns () (b\<lparr>out := out b @
             [SendMessage userID ''Choose a specific topic:'' []
                (Some [take 3 (map (\<lambda>topic. NewInlineKeyboardButtonData topic topic)
                                 (splitTopics response)),
                       drop 3 (map (\<lambda>topic. NewInlineKeyboardButtonData topic topic)
                                 (splitTopics response))])]\<rparr>))"
  by (rule sendTopics_rows)

text \<open>
  C7 as stated fails at a response of three segments: the split has 3 < 5 segments
  and the topic offer returns, having sent a first row of three buttons and an empty second
  row. A response of two segments does panic.
\<close>

theorem sendTopics_three_segments_counterexample:
  "length (splitTopics ''Nutrition,Sleep,Exercise'') = 3
   \<and> sendTopics 1 (splitTopics ''Nutrition,Sleep,Exercise'') initialBot
       = Returns ()
           (initialBot\<lparr>out :=
              [SendMessage 1 ''Choose a specific topic:'' []
                 (Some [[(''Nutrition'', Some ''Nutrition''), (''Sleep'', Some ''Sleep''),
                         (''Exercise'', Some ''Exercise'')], []])]\<rparr>)
   \<and> sendTopics 1 (splitTopics ''Nutrition,Sleep'') initialBot = Panics initialBot"
  by (simp add: sendTopics_rows splitTopics_def initialBot_def NewInlineKeyboardButtonData_def)

section \<open>The phases of internal/bot/bot.go\<close>

text \<open>In \<^verbatim>\<open>internal/bot/bot.go\<close> the only assignment of phase topic stands behind the second
  lock of the category selection, so no run from the empty store, however it ends, holds a
  record at phase topic.\<close>

lemma handleMessage_no_topic:
  assumes "\<not> mu b"
    and "\<forall>u st. states b u = Some st \<longrightarrow> WaitingFor st \<noteq> StateTopic"
  shows "\<exists>b'. handleMessage userID body b = Returns () b' \<and> \<not> mu b'
           \<and> (\<forall>u st. states b' u = Some st \<longrightarrow> WaitingFor st \<noteq> StateTopic)"
  using assms
  by (cases "states b userID")
     (auto simp add: handleMessage_def handleTextRequest_def andThen_def getState_free
        resetState_free sendCategories_free Send_def newUserState_def
        StateInitial_def StateCategory_def StateTopic_def)

lemma handleCallback_no_topic:
  assumes "\<not> mu b"
    and "\<forall>u st. states b u = Some st \<longrightarrow> WaitingFor st \<noteq> StateTopic"
  shows "(\<forall>u st. states (stateOf (handleCallback svc queryID userID data b)) u = Some st
            \<longrightarrow> WaitingFor st \<noteq> StateTopic)
         \<and> (returned (handleCallback svc queryID userID data b)
              \<longrightarrow> \<not> mu (stateOf (handleCallback svc queryID userID data b)))"
  using assms
  by (cases "states b userID")
     (auto simp add: handleCallback_def andThen_def getState_free handleCategorySelection_def
        Lock_def getState_held Send_def newUserState_def
        StateInitial_def StateCategory_def StateTopic_def)

lemma handleUpdate_no_topic:
  assumes "\<not> mu b"
    and "\<forall>u st. states b u = Some st \<longrightarrow> WaitingFor st \<noteq> StateTopic"
  shows "(\<forall>u st. states (stateOf (handleUpdate svc upd b)) u = Some st
            \<longrightarrow> WaitingFor st \<noteq> StateTopic)
         \<and> (returned (handleUpdate svc upd b) \<longrightarrow> \<not> mu (stateOf (handleUpdate svc upd b)))"
proof (cases upd)
  case (Message userID body)
  with handleMessage_no_topic [OF assms, of userID body] show ?thesis
    by auto
next
  case (CallbackQuery queryID userID data)
  with handleCallback_no_topic [OF assms, of svc queryID userID data] show ?thesis
    by simp
next
  case OtherUpdate
  with assms show ?thesis
    by simp
qed

lemma run_no_topic:
  assumes "\<not> mu b"
    and "\<forall>u st. states b u = Some st \<longrightarrow> WaitingFor st \<noteq> StateTopic"
  shows "\<forall>u st. states (stateOf (run evs b)) u = Some st \<longrightarrow> WaitingFor st \<noteq> StateTopic"
  using assms
proof (induction evs arbitrary: b)
  case Nil
  then show ?case by simp
next
  case (Cons ev evs)
  obtain upd svc where ev: "ev = (upd, svc)"
    by (cases ev)
  note step = handleUpdate_no_topic [OF Cons.prems, of svc upd]
  show ?case
  proof (cases "handleUpdate svc upd b")
    case (Returns x b1)
    with step have "\<not> mu b1"
      and "\<forall>u st. states b1 u = Some st \<longrightarrow> WaitingFor st \<noteq> StateTopic"
      by simp_all
    from Cons.IH [OF this] ev Returns show ?thesis
      by (simp add: andThen_def)
  next
    case (Blocks b1)
    with step ev show ?thesis
      by (simp add: andThen_def)
  next
    case (Panics b1)
    with step ev show ?thesis
      by (simp add: andThen_def)
  qed
qed

lemma run_never_reaches_topic:
  "states (stateOf (run evs initialBot)) u = Some st \<Longrightarrow> WaitingFor st \<noteq> StateTopic"
  using run_no_topic [of initialBot evs] by (simp add: initialBot_def)







section \<open>The phases of the older main.go\<close>

lemma generateAndSendAudio_states:
  "\<not> mu b \<Longrightarrow> states b userID = Some st \<Longrightarrow>
   \<exists>b' rest. generateAndSendAudio svc userID text b = Returns () b' \<and> \<not> mu b'
     \<and> out b' = out b @ rest
     \<and> (states b' = states b
          \<or> states b' = (states b)(userID \<mapsto> st\<lparr>WaitingFor := StateCategory\<rparr>))"
  by (simp add: generateAndSendAudio_def andThen_def deferring_def Send_def sendError_free
      split: reply.splits)

lemma main_handleCategorySelection_states:
  assumes "\<not> mu b" and "main_handleCategorySelection svc userID category b = Returns () b'"
  shows "\<not> mu b' \<and> (\<exists>st phase. states b userID = Some st
           \<and> states b' = (states b)(userID \<mapsto> st\<lparr>Category := category, WaitingFor := phase\<rparr>))"
proof (cases "states b userID")
  case None
  with assms show ?thesis
    by (simp add: main_handleCategorySelection_def andThen_def Lock_def modifyState_def)
next
  case (Some st)
  show ?thesis
  proof (cases "chatReply svc")
    case Failure
    with assms Some show ?thesis
      by (auto simp add: main_handleCategorySelection_failure)
  next
    case (Success choices)
    with assms Some show ?thesis
      by (auto simp add: main_handleCategorySelection_reaches_call andThen_def firstChoice_def
          Send_def sendTopics_rows split: list.splits if_splits)
  qed
qed


lemma main_handleTopicSelection_reaches_call:
  "\<not> mu b \<Longrightarrow> states b userID = Some st \<Longrightarrow>
   main_handleTopicSelection svc userID topic b =
     (case chatReply svc of
        Failure \<Rightarrow> sendError userID
      | Success choices \<Rightarrow>
          andThen (firstChoice choices) (\<lambda>script.
          andThen Lock (\<lambda>_.
          andThen (modifyState userID (\<lambda>st. st\<lparr>ScriptText := script\<rparr>)) (\<lambda>_.
          andThen Unlock (\<lambda>_.
          generateAndSendAudio svc userID script)))))
       (b\<lparr>states := (states b)(userID \<mapsto> st\<lparr>Topic := topic\<rparr>),
          mu := False,
          out := out b @ [ChatCompletion GPT4o (scriptPrompt topic (Category st))]\<rparr>)"
  by (simp add: main_handleTopicSelection_def andThen_def Lock_def Unlock_def
      modifyState_def lookupState_def deref_def CreateChatCompletion_def)

lemma main_handleTopicSelection_outcome:
  assumes "\<not> mu b" and "states b userID = Some st"
  shows "\<exists>rest. out (stateOf (main_handleTopicSelection svc userID topic b))
             = out b @ ChatCompletion GPT4o (scriptPrompt topic (Category st)) # rest
         \<and> (\<forall>u. u \<noteq> userID \<longrightarrow>
               states (stateOf (main_handleTopicSelection svc userID topic b)) u = states b u)
         \<and> map_option Topic (states (stateOf (main_handleTopicSelection svc userID topic b)) userID)
             = Some topic
         \<and> map_option Category (states (stateOf (main_handleTopicSelection svc userID topic b)) userID)
             = Some (Category st)
         \<and> (map_option WaitingFor (states (stateOf (main_handleTopicSelection svc userID topic b)) userID)
               = Some (WaitingFor st)
             \<or> map_option WaitingFor (states (stateOf (main_handleTopicSelection svc userID topic b)) userID)
               = Some StateCategory)
         \<and> (returned (main_handleTopicSelection svc userID topic b)
              \<longrightarrow> \<not> mu (stateOf (main_handleTopicSelection svc userID topic b)))"
proof (cases "chatReply svc")
  case Failure
  with assms show ?thesis
    by (simp add: main_handleTopicSelection_reaches_call sendError_free)
next
  case (Success choices)
  show ?thesis
  proof (cases choices)
    case Nil
    with Success assms show ?thesis
      by (simp add: main_handleTopicSelection_reaches_call andThen_def firstChoice_def)
  next
    case (Cons script others)
    let ?b2 = "b\<lparr>out := out b @ [ChatCompletion GPT4o (scriptPrompt topic (Category st))],
                 states := (states b)(userID \<mapsto> st\<lparr>Topic := topic, ScriptText := script\<rparr>),
                 mu := False\<rparr>"
    have run: "main_handleTopicSelection svc userID topic b
                 = generateAndSendAudio svc userID script ?b2"
      using Success Cons assms
      by (simp add: main_handleTopicSelection_reaches_call andThen_def firstChoice_def
          Lock_def Unlock_def modifyState_def)
    have "\<not> mu ?b2" and "states ?b2 userID = Some (st\<lparr>Topic := topic, ScriptText := script\<rparr>)"
      by simp_all
    from generateAndSendAudio_states [OF this, of svc script]
    obtain b' rest where b': "generateAndSendAudio svc userID script ?b2 = Returns () b'"
      and "\<not> mu b'" and "out b' = out ?b2 @ rest"
      and "states b' = states ?b2
           \<or> states b' = (states ?b2)(userID \<mapsto>
                 st\<lparr>Topic := topic, ScriptText := script, WaitingFor := StateCategory\<rparr>)"
      by auto
    then show ?thesis
      unfolding run b' by auto
  qed
qed


lemma mu_free_update: "\<not> mu b \<Longrightarrow> b\<lparr>mu := False\<rparr> = b"
  by simp

lemma main_handleTextRequest_states:
  "\<not> mu b \<Longrightarrow> states b userID = Some st \<Longrightarrow>
   \<exists>msg. main_handleTextRequest userID b = Returns () (b\<lparr>out := out b @ [msg]\<rparr>)"
  by (auto simp add: main_handleTextRequest_def andThen_def Lock_def Unlock_def lookupState_def
      deref_def Send_def mu_free_update)

lemma main_handleMessage_states:
  assumes "\<not> mu b" and "main_handleMessage userID text b = Returns () b'"
  shows "\<not> mu b' \<and> (\<forall>u. u \<noteq> userID \<longrightarrow> states b' u = states b u)
         \<and> (\<exists>st'. states b' userID = Some st'
               \<and> (WaitingFor st' \<noteq> StateTopic \<or> states b userID = Some st'))"
proof (cases "states b userID")
  case None
  with assms show ?thesis
    by (auto simp add: main_handleMessage_def main_handleTextRequest_def andThen_def Lock_def
        Unlock_def lookupState_def deref_def Send_def sendCategories_free newUserState_def
        StateInitial_def StateCategory_def StateTopic_def split: if_splits)
next
  case (Some st)
  with assms show ?thesis
    by (auto simp add: main_handleMessage_def main_handleTextRequest_def andThen_def Lock_def
        Unlock_def lookupState_def deref_def Send_def sendCategories_free newUserState_def
        StateInitial_def StateCategory_def StateTopic_def split: if_splits)
qed

lemma main_handleCallback_phase:
  "\<not> mu b \<Longrightarrow> states b userID = Some st \<Longrightarrow>
   main_handleCallback svc queryID userID data b =
     andThen (if WaitingFor st = StateCategory then main_handleCategorySelection svc userID data
              else if WaitingFor st = StateTopic then main_handleTopicSelection svc userID data
              else Returns ())
       (\<lambda>_. Send (SendCallback queryID [])) b"
  by (simp add: main_handleCallback_def andThen_def [of Lock] andThen_def [of "lookupState userID"]
      andThen_def [of Unlock] andThen_def [of "deref (Some st)"]
      Lock_def Unlock_def lookupState_def deref_def mu_free_update)


lemma main_handleCallback_step:
  assumes free: "\<not> mu b"
    and inv: "\<forall>u st. states b u = Some st \<longrightarrow> WaitingFor st = StateTopic \<longrightarrow> Category st \<noteq> []"
    and label: "data \<noteq> []"
    and ret: "main_handleCallback svc queryID userID data b = Returns () b'"
  shows "\<not> mu b'
         \<and> (\<forall>u st. states b' u = Some st \<longrightarrow> WaitingFor st = StateTopic \<longrightarrow> Category st \<noteq> [])"
proof (cases "states b userID")
  case None
  with free ret show ?thesis
    by (simp add: main_handleCallback_def andThen_def Lock_def Unlock_def lookupState_def
        deref_def)
next
  case (Some st)
  note phase = main_handleCallback_phase [OF free Some, of svc queryID data]
  consider (category) "WaitingFor st = StateCategory"
    | (topic) "WaitingFor st \<noteq> StateCategory" "WaitingFor st = StateTopic"
    | (other) "WaitingFor st \<noteq> StateCategory" "WaitingFor st \<noteq> StateTopic"
    by blast
  then show ?thesis
  proof cases
    case category
    with ret phase obtain b1 where b1: "main_handleCategorySelection svc userID data b = Returns () b1"
      and b': "b' = b1\<lparr>out := out b1 @ [SendCallback queryID []]\<rparr>"
      by (auto simp add: andThen_def Send_def split: outcome.splits)
    from main_handleCategorySelection_states [OF free b1] inv label b' show ?thesis
      by (auto split: if_splits)
  next
    case topic
    let ?R = "main_handleTopicSelection svc userID data b"
    from topic ret phase obtain b1 where b1: "?R = Returns () b1"
      and b': "b' = b1\<lparr>out := out b1 @ [SendCallback queryID []]\<rparr>"
      by (auto simp add: andThen_def Send_def split: outcome.splits)
    from main_handleTopicSelection_outcome [OF free Some, of svc data]
    have keep: "\<forall>u. u \<noteq> userID \<longrightarrow> states b1 u = states b u"
      and cat: "map_option Category (states b1 userID) = Some (Category st)"
      and "\<not> mu b1"
      unfolding b1 by auto
    from inv Some topic have "Category st \<noteq> []"
      by blast
    show ?thesis
    proof (intro conjI allI impI)
      show "\<not> mu b'"
        using b' \<open>\<not> mu b1\<close> by simp
    next
      fix u s
      assume "states b' u = Some s" and "WaitingFor s = StateTopic"
      then have s: "states b1 u = Some s"
        using b' by simp
      show "Category s \<noteq> []"
      proof (cases "u = userID")
        case True
        with s cat \<open>Category st \<noteq> []\<close> show ?thesis by simp
      next
        case False
        with s keep have "states b u = Some s" by simp
        with inv \<open>WaitingFor s = StateTopic\<close> show ?thesis by blast
      qed
    qed
  next
    case other
    with ret phase inv free show ?thesis
      by (auto simp add: andThen_def Send_def)
  qed
qed


lemma main_handleUpdate_step:
  assumes free: "\<not> mu b"
    and inv: "\<forall>u st. states b u = Some st \<longrightarrow> WaitingFor st = StateTopic \<longrightarrow> Category st \<noteq> []"
    and label: "hasLabel upd"
    and ret: "main_handleUpdate svc upd b = Returns () b'"
  shows "\<not> mu b'
         \<and> (\<forall>u st. states b' u = Some st \<longrightarrow> WaitingFor st = StateTopic \<longrightarrow> Category st \<noteq> [])"
proof (cases upd)
  case (Message userID body)
  with ret have "main_handleMessage userID body b = Returns () b'"
    by simp
  from main_handleMessage_states [OF free this] inv show ?thesis
    by (metis option.inject)
next
  case (CallbackQuery queryID userID data)
  with ret label show ?thesis
    using main_handleCallback_step [OF free inv, of data svc queryID userID b']
    by simp
next
  case OtherUpdate
  with ret free inv show ?thesis
    by simp
qed

lemma main_run_step:
  assumes "\<not> mu b"
    and "\<forall>u st. states b u = Some st \<longrightarrow> WaitingFor st = StateTopic \<longrightarrow> Category st \<noteq> []"
    and "list_all (\<lambda>(upd, svc). hasLabel upd) evs"
    and "main_run evs b = Returns () b'"
  shows "\<not> mu b'
         \<and> (\<forall>u st. states b' u = Some st \<longrightarrow> WaitingFor st = StateTopic \<longrightarrow> Category st \<noteq> [])"
  using assms
proof (induction evs arbitrary: b)
  case Nil
  then show ?case by simp
next
  case (Cons ev evs)
  obtain upd svc where ev: "ev = (upd, svc)"
    by (cases ev)
  with Cons.prems(4) obtain b1 where b1: "main_handleUpdate svc upd b = Returns () b1"
    and rest: "main_run evs b1 = Returns () b'"
    by (auto simp add: andThen_def split: outcome.splits)
  from Cons.prems(3) ev have "hasLabel upd" and labels: "list_all (\<lambda>(upd, svc). hasLabel upd) evs"
    by simp_all
  from main_handleUpdate_step [OF Cons.prems(1,2) this(1) b1]
  have "\<not> mu b1"
    and "\<forall>u st. states b1 u = Some st \<longrightarrow> WaitingFor st = StateTopic \<longrightarrow> Category st \<noteq> []"
    by simp_all
  from Cons.IH [OF this labels rest] show ?case .
qed

lemma stateOf_then_Send:
  "stateOf (andThen m (\<lambda>_. Send e) b) =
     (if returned (m b) then (stateOf (m b))\<lparr>out := out (stateOf (m b)) @ [e]\<rparr>
      else stateOf (m b))"
  by (cases "m b") (simp_all add: andThen_def Send_def)


text \<open>
  The older \<^verbatim>\<open>main.go\<close> locks once in the category selection, so there phase topic is
  reached. Along every run from the empty store whose selection events all carry a
  non-empty label, every record at phase topic has a non-empty category; and a selection
  event with a non-empty label handled at phase topic makes the script generation call its
  first effect, with the record's topic being that label in the state the handler reaches.
\<close>

lemma main_run_labelled_topic_has_category:
  assumes "list_all (\<lambda>(upd, svc). hasLabel upd) evs"
    and "main_run evs initialBot = Returns () b"
  shows "(\<forall>user st. states b user = Some st \<longrightarrow> WaitingFor st = StateTopic
            \<longrightarrow> Category st \<noteq> [])
         \<and> (\<forall>svc queryID user label st.
               label \<noteq> [] \<longrightarrow> states b user = Some st \<longrightarrow> WaitingFor st = StateTopic \<longrightarrow>
               (\<exists>rest. out (stateOf (main_handleCallback svc queryID user label b))
                         = out b @ ChatCompletion GPT4o (scriptPrompt label (Category st)) # rest)
               \<and> map_option Topic
                    (states (stateOf (main_handleCallback svc queryID user label b)) user)
                   = Some label)"
proof -
  have "\<not> mu initialBot"
    and "\<forall>u st. states initialBot u = Some st \<longrightarrow> WaitingFor st = StateTopic
           \<longrightarrow> Category st \<noteq> []"
    by (simp_all add: initialBot_def)
  from main_run_step [OF this assms]
  have free: "\<not> mu b"
    and inv: "\<forall>u st. states b u = Some st \<longrightarrow> WaitingFor st = StateTopic \<longrightarrow> Category st \<noteq> []"
    by simp_all
  have "(\<exists>rest. out (stateOf (main_handleCallback svc queryID user label b))
                   = out b @ ChatCompletion GPT4o (scriptPrompt label (Category st)) # rest)
        \<and> map_option Topic (states (stateOf (main_handleCallback svc queryID user label b)) user)
            = Some label"
    if st: "states b user = Some st" and topic: "WaitingFor st = StateTopic"
    for svc queryID user label st
  proof -
    from topic have "WaitingFor st \<noteq> StateCategory"
      by (simp add: StateTopic_def StateCategory_def)
    with topic have "main_handleCallback svc queryID user label b =
        andThen (main_handleTopicSelection svc user label) (\<lambda>_. Send (SendCallback queryID [])) b"
      by (simp add: main_handleCallback_phase [OF free st])
    with main_handleTopicSelection_outcome [OF free st, of svc label] show ?thesis
      by (auto simp add: stateOf_then_Send)
  qed
  with inv show ?thesis
    by blast
qed

lemma main_run_labelled_example:
  "list_all (\<lambda>(upd, svc). hasLabel upd)
     [(Message 1 ''/new'', \<lparr>chatReply = Failure, speechReply = Failure, writeFileOk = True\<rparr>),
      (CallbackQuery ''q1'' 1 ''Health'',
         \<lparr>chatReply = Success [''Nutrition,Sleep,Exercise,Mental Health,Hydration''],
          speechReply = Failure, writeFileOk = True\<rparr>)]
   \<and> states (stateOf (main_run
        [(Message 1 ''/new'', \<lparr>chatReply = Failure, speechReply = Failure, writeFileOk = True\<rparr>),
         (CallbackQuery ''q1'' 1 ''Health'',
            \<lparr>chatReply = Success [''Nutrition,Sleep,Exercise,Mental Health,Hydration''],
             speechReply = Failure, writeFileOk = True\<rparr>)] initialBot)) 1
       = Some \<lparr>Category = ''Health'', Topic = [], WaitingFor = ''topic'', ScriptText = []\<rparr>
   \<and> Category \<lparr>Category = ''Health'', Topic = [], WaitingFor = ''topic'', ScriptText = []\<rparr> \<noteq> []
   \<and> map_option Topic (states (stateOf (main_handleCallback
        \<lparr>chatReply = Success [''Sleep well.''], speechReply = Success (Success ''mp3''),
         writeFileOk = True\<rparr> ''q2'' 1 ''Sleep''
        (stateOf (main_run
          [(Message 1 ''/new'', \<lparr>chatReply = Failure, speechReply = Failure, writeFileOk = True\<rparr>),
           (CallbackQuery ''q1'' 1 ''Health'',
              \<lparr>chatReply = Success [''Nutrition,Sleep,Exercise,Mental Health,Hydration''],
               speechReply = Failure, writeFileOk = True\<rparr>)] initialBot)))) 1)
       = Some ''Sleep''"
proof -
  let ?evs = "[(Message 1 ''/new'', \<lparr>chatReply = Failure, speechReply = Failure, writeFileOk = True\<rparr>),
      (CallbackQuery ''q1'' 1 ''Health'',
         \<lparr>chatReply = Success [''Nutrition,Sleep,Exercise,Mental Health,Hydration''],
          speechReply = Failure, writeFileOk = True\<rparr>)]"
  let ?st = "\<lparr>Category = ''Health'', Topic = [], WaitingFor = ''topic'', ScriptText = []\<rparr>"
  have labels: "list_all (\<lambda>(upd, svc). hasLabel upd) ?evs"
    by simp
  have run: "returned (main_run ?evs initialBot)
             \<and> states (stateOf (main_run ?evs initialBot)) 1 = Some ?st"
    by (simp add: main_handleMessage_def main_handleCallback_def main_handleCategorySelection_def
        sendCategories_def sendTopics_rows splitTopics_def exec_defs initialBot_def
        newUserState_def StateCategory_def StateInitial_def StateTopic_def)
  then have ret: "main_run ?evs initialBot = Returns () (stateOf (main_run ?evs initialBot))"
    by (cases "main_run ?evs initialBot") simp_all
  have phase: "WaitingFor ?st = StateTopic"
    by (simp add: StateTopic_def)
  from main_run_labelled_topic_has_category [OF labels ret] run phase
  have "Category ?st \<noteq> []"
    and "map_option Topic (states (stateOf (main_handleCallback
           \<lparr>chatReply = Success [''Sleep well.''], speechReply = Success (Success ''mp3''),
            writeFileOk = True\<rparr> ''q2'' 1 ''Sleep'' (stateOf (main_run ?evs initialBot)))) 1)
         = Some ''Sleep''"
    by blast+
  with labels run show ?thesis
    by blast
qed

text \<open>
  With an empty label both properties fail on \<^verbatim>\<open>main.go\<close>. After \<^verbatim>\<open>/new\<close> and a selection
  event with the empty label the record is at phase topic with an empty category; a second
  selection event with the empty label then makes the script generation call with an empty
  topic.
\<close>

lemma main_run_empty_label:
  "returned (main_run
      [(Message 1 ''/new'', \<lparr>chatReply = Failure, speechReply = Failure, writeFileOk = True\<rparr>),
       (CallbackQuery ''q1'' 1 [],
          \<lparr>chatReply = Success [''a,b,c,d,e''], speechReply = Failure, writeFileOk = True\<rparr>)]
      initialBot)
   \<and> states (stateOf (main_run
      [(Message 1 ''/new'', \<lparr>chatReply = Failure, speechReply = Failure, writeFileOk = True\<rparr>),
       (CallbackQuery ''q1'' 1 [],
          \<lparr>chatReply = Success [''a,b,c,d,e''], speechReply = Failure, writeFileOk = True\<rparr>)]
      initialBot)) 1
     = Some \<lparr>Category = [], Topic = [], WaitingFor = StateTopic, ScriptText = []\<rparr>
   \<and> out (stateOf (main_run
      [(Message 1 ''/new'', \<lparr>chatReply = Failure, speechReply = Failure, writeFileOk = True\<rparr>),
       (CallbackQuery ''q1'' 1 [],
          \<lparr>chatReply = Success [''a,b,c,d,e''], speechReply = Failure, writeFileOk = True\<rparr>),
       (CallbackQuery ''q2'' 1 [],
          \<lparr>chatReply = Success [''Hello.''], speechReply = Success (Success ''mp3''),
           writeFileOk = True\<rparr>)]
      initialBot)) ! 5
     = ChatCompletion GPT4o (scriptPrompt [] [])
   \<and> map_option Topic (states (stateOf (main_run
      [(Message 1 ''/new'', \<lparr>chatReply = Failure, speechReply = Failure, writeFileOk = True\<rparr>),
       (CallbackQuery ''q1'' 1 [],
          \<lparr>chatReply = Success [''a,b,c,d,e''], speechReply = Failure, writeFileOk = True\<rparr>),
       (CallbackQuery ''q2'' 1 [],
          \<lparr>chatReply = Success [''Hello.''], speechReply = Success (Success ''mp3''),
           writeFileOk = True\<rparr>)]
      initialBot)) 1) = Some []"
  by (simp add: main_handleMessage_def main_handleCallback_def main_handleCategorySelection_def
      main_handleTopicSelection_def generateAndSendAudio_def
      sendCategories_def sendTopics_rows splitTopics_def exec_defs initialBot_def
      newUserState_def StateCategory_def StateInitial_def StateTopic_def)

end
